theory Spec2Isabelle
  imports Complex_Main
begin

section \<open>The DELETE query writer of cirql (src/lib/writer/delete.ts)\<close>

subsection \<open>JavaScript values used by the writer\<close>

text \<open>
  The two error classes the file raises: \<open>CirqlWriterError\<close> (thrown by \<open>where\<close> and
  \<open>del\<close>) and the plain JavaScript \<open>Error\<close> (thrown by \<open>toQuery\<close>), each with its message.
\<close>

datatype error = CirqlWriterError string | Error string

text \<open>
  \<open>Array.prototype.join\<close> on an array of strings: the elements separated by \<open>sep\<close>,
  the empty string for the empty array.
\<close>

fun join :: "string \<Rightarrow> string list \<Rightarrow> string" where
  "join sep [] = []"
| "join sep [x] = x"
| "join sep (x # y # ys) = x @ sep @ join sep (y # ys)"

text \<open>
  \<open>String.prototype.toUpperCase\<close> on ASCII text: each of the letters a to z is replaced
  by its capital, every other character is kept. The return modes are ASCII words.
\<close>

definition upperChar :: "char \<Rightarrow> char" where
  "upperChar c =
     (case map_of (zip ''abcdefghijklmnopqrstuvwxyz'' ''ABCDEFGHIJKLMNOPQRSTUVWXYZ'') c of
        Some u \<Rightarrow> u
      | None \<Rightarrow> c)"

definition toUpperCase :: "string \<Rightarrow> string" where
  "toUpperCase s = map upperChar s"

text \<open>
  A JavaScript number: \<open>NaN\<close>, one of the two infinities, or a finite double given by
  its value, a rational. The two zeros are the one value \<open>Finite 0\<close>: both are falsy and
  both print as \<open>0\<close>.
\<close>

datatype number = NaN | PosInfinity | NegInfinity | Finite rat

text \<open>Truthiness of a number: every number but the zeros and \<open>NaN\<close>.\<close>

definition truthyNumber :: "number \<Rightarrow> bool" where
  "truthyNumber n =
     (case n of NaN \<Rightarrow> False | PosInfinity \<Rightarrow> True | NegInfinity \<Rightarrow> True | Finite x \<Rightarrow> x \<noteq> 0)"

text \<open>
  The text a template literal gives a number (\<open>Number::toString\<close> of ECMAScript):
  \<open>NaN\<close>, \<open>Infinity\<close>, \<open>-Infinity\<close>, and for an integer up to
  \<open>Number.MAX_SAFE_INTEGER\<close> in magnitude its decimal numeral, with a minus sign when
  negative. For the other finite values (fractions, and magnitudes above the safe
  integers, printed with their shortest digits and from \<open>10^21\<close> on with an exponent) the
  text is that of the parameter \<open>otherNumberText\<close>.
\<close>

fun natToString :: "nat \<Rightarrow> string" where
  "natToString n =
     (if n < 10 then [''0123456789'' ! n]
      else natToString (n div 10) @ [''0123456789'' ! (n mod 10)])"

definition isSafeInteger :: "rat \<Rightarrow> bool" where
  "isSafeInteger x = (x = of_int \<lfloor>x\<rfloor> \<and> \<bar>x\<bar> \<le> 9007199254740991)"

definition numberToString :: "(rat \<Rightarrow> string) \<Rightarrow> number \<Rightarrow> string" where
  "numberToString otherNumberText n =
     (case n of
        NaN \<Rightarrow> ''NaN''
      | PosInfinity \<Rightarrow> ''Infinity''
      | NegInfinity \<Rightarrow> ''-Infinity''
      | Finite x \<Rightarrow>
          if isSafeInteger x
          then (if x < 0 then ''-'' @ natToString (nat (- \<lfloor>x\<rfloor>))
                else natToString (nat \<lfloor>x\<rfloor>))
          else otherNumberText x)"

subsection \<open>The writer state\<close>

text \<open>
  \<open>DeleteQueryState\<close>. The schema is \<open>null\<close> (\<open>None\<close>) or a validator of the opaque type
  \<open>'s\<close>; \<open>quantity\<close> and \<open>returnMode\<close> are string literal unions, strings at run time;
  \<open>undefined\<close> is \<open>None\<close>. The field \<open>where\<close> is named \<open>where_clause\<close>, \<open>where\<close> being
  a keyword.
\<close>

record 's DeleteQueryState =
  schema :: "'s option"
  quantity :: string
  targets :: string
  where_clause :: "string option"
  returnMode :: "string option"
  returnFields :: "string list"
  timeout :: "number option"
  parallel :: bool
  unrelate :: bool

text \<open>
  The argument of \<open>where\<close>: a string, or an object (\<open>typeof where === 'object'\<close>) given
  as its properties in order, with values of the opaque operator type \<open>'o\<close>.
\<close>

datatype 'o where_arg = WhereText string | WhereObject "(string \<times> 'o) list"

text \<open>The relation passed to \<open>delRelation\<close>: its \<open>edge\<close>, the other fields in the extension.\<close>

record RecordRelation =
  edge :: string

subsection \<open>Configuration operations\<close>

text \<open>
  Each method builds a new writer from the spread of the state with the named fields
  replaced. The method names clash with the fields and with keywords, so each carries the
  suffix \<open>_op\<close>. \<open>z.object\<close> and \<open>z.any()\<close> of the zod library, and \<open>parseWhereClause\<close> of
  ./parser, are parameters.
\<close>

definition with_op :: "'s DeleteQueryState \<Rightarrow> 's \<Rightarrow> 's DeleteQueryState" where
  "with_op st sch = st\<lparr>schema := Some sch\<rparr>"

definition withSchema :: "('shape \<Rightarrow> 's) \<Rightarrow> 's DeleteQueryState \<Rightarrow> 'shape \<Rightarrow> 's DeleteQueryState" where
  "withSchema zobject st shape = with_op st (zobject shape)"

definition withAny :: "'s \<Rightarrow> 's DeleteQueryState \<Rightarrow> 's DeleteQueryState" where
  "withAny zany st = with_op st zany"

definition where_op ::
  "((string \<times> 'o) list \<Rightarrow> string) \<Rightarrow> 's DeleteQueryState \<Rightarrow> 'o where_arg
     \<Rightarrow> error + 's DeleteQueryState" where
  "where_op parseWhereClause st w =
     (if unrelate st then Inl (CirqlWriterError ''Cannot use where clause with delRelation'')
      else
        let w' = (case w of WhereObject obj \<Rightarrow> parseWhereClause obj | WhereText t \<Rightarrow> t)
        in Inr (st\<lparr>where_clause := Some w'\<rparr>))"

definition return_op :: "'s DeleteQueryState \<Rightarrow> string \<Rightarrow> 's DeleteQueryState" where
  "return_op st mode = st\<lparr>returnMode := Some mode\<rparr>"

definition returnFields_op :: "'s DeleteQueryState \<Rightarrow> string list \<Rightarrow> 's DeleteQueryState" where
  "returnFields_op st fs = st\<lparr>returnMode := Some ''fields'', returnFields := fs\<rparr>"

definition timeout_op :: "'s DeleteQueryState \<Rightarrow> number \<Rightarrow> 's DeleteQueryState" where
  "timeout_op st t = st\<lparr>timeout := Some t\<rparr>"

definition parallel_op :: "'s DeleteQueryState \<Rightarrow> 's DeleteQueryState" where
  "parallel_op st = st\<lparr>parallel := True\<rparr>"

subsection \<open>Rendering\<close>

text \<open>
  \<open>toQuery\<close>: the guard on \<open>targets\<close>, then the builder extended clause by clause. The
  tests are JavaScript truthiness: a string is truthy when not empty, a number when it is
  neither zero nor \<open>NaN\<close>, \<open>undefined\<close> never. The parameter is the one of
  \<open>numberToString\<close>.
\<close>

definition toQuery :: "(rat \<Rightarrow> string) \<Rightarrow> 's DeleteQueryState \<Rightarrow> error + string" where
  "toQuery otherNumberText st =
     (if targets st = [] then Inl (Error ''No targets specified'')
      else
        let builder = ''DELETE '' @ targets st;
            builder = (case where_clause st of
                         Some w \<Rightarrow> if w \<noteq> [] then builder @ '' WHERE '' @ w else builder
                       | None \<Rightarrow> builder);
            builder = (if returnMode st = Some ''fields''
                       then builder @ '' RETURN '' @ join '', '' (returnFields st)
                       else (case returnMode st of
                               Some m \<Rightarrow> if m \<noteq> [] then builder @ '' RETURN '' @ toUpperCase m
                                         else builder
                             | None \<Rightarrow> builder));
            builder = (case timeout st of
                         Some t \<Rightarrow> if truthyNumber t
                                   then builder @ '' TIMEOUT ''
                                          @ numberToString otherNumberText t @ ''s''
                                   else builder
                       | None \<Rightarrow> builder);
            builder = (if parallel st then builder @ '' PARALLEL'' else builder)
        in Inr builder)"

subsection \<open>Factories\<close>

text \<open>
  Modelled from the spec: \<open>isListLike\<close> of ../helpers is not among the sources. By the
  spec it holds when any of the target arguments is itself a sequence-like value; the test
  of one value is the parameter \<open>listLike\<close>.
\<close>

definition isListLike :: "('v \<Rightarrow> bool) \<Rightarrow> 'v list \<Rightarrow> bool" where
  "isListLike listLike vs = list_ex listLike vs"

text \<open>\<open>del\<close>; the value renderer \<open>useSurrealValueUnsafe\<close> of ../helpers is a parameter.\<close>

definition del ::
  "('v \<Rightarrow> bool) \<Rightarrow> ('v \<Rightarrow> string) \<Rightarrow> 'v list \<Rightarrow> error + 's DeleteQueryState" where
  "del listLike useSurrealValueUnsafe ts =
     (if length ts = 0 then Inl (CirqlWriterError ''At least one target must be specified'')
      else if isListLike listLike ts
        then Inl (CirqlWriterError ''Multiple targets must be specified seperately'')
      else Inr \<lparr> schema = None,
                 quantity = ''many'',
                 targets = join '', '' (map useSurrealValueUnsafe ts),
                 where_clause = None,
                 returnMode = Some ''before'',
                 returnFields = [],
                 timeout = None,
                 parallel = False,
                 unrelate = False \<rparr>)"

text \<open>
  \<open>delRecord\<close>, with the optional \<open>id\<close>; \<open>assertRecordLink\<close> (which may throw) and
  \<open>thing\<close> of ../helpers are parameters.
\<close>

definition delRecord ::
  "(string \<Rightarrow> error + string) \<Rightarrow> (string \<Rightarrow> string \<Rightarrow> string) \<Rightarrow> string \<Rightarrow> string option
     \<Rightarrow> error + 's DeleteQueryState" where
  "delRecord assertRecordLink thing recordOrTable id' =
     (case (case id' of None \<Rightarrow> assertRecordLink recordOrTable
                     | Some i \<Rightarrow> Inr (thing recordOrTable i)) of
        Inl e \<Rightarrow> Inl e
      | Inr t \<Rightarrow> Inr \<lparr> schema = None,
                       quantity = ''maybe'',
                       targets = t,
                       where_clause = None,
                       returnMode = Some ''before'',
                       returnFields = [],
                       timeout = None,
                       parallel = False,
                       unrelate = False \<rparr>)"

text \<open>
  \<open>delRelation\<close>; \<open>parseWhereClause\<close>, \<open>eq\<close>, \<open>getRelationFrom\<close> and \<open>getRelationTo\<close> are
  parameters.
\<close>

definition delRelation ::
  "((string \<times> 'o) list \<Rightarrow> string) \<Rightarrow> ('v \<Rightarrow> 'o)
     \<Rightarrow> ('r RecordRelation_scheme \<Rightarrow> 'v) \<Rightarrow> ('r RecordRelation_scheme \<Rightarrow> 'v)
     \<Rightarrow> 'r RecordRelation_scheme \<Rightarrow> 's DeleteQueryState" where
  "delRelation parseWhereClause eq getRelationFrom getRelationTo relation =
     \<lparr> schema = None,
       quantity = ''maybe'',
       targets = edge relation,
       where_clause = Some (parseWhereClause
          [(''in'', eq (getRelationFrom relation)), (''out'', eq (getRelationTo relation))]),
       returnMode = Some ''before'',
       returnFields = [],
       timeout = None,
       parallel = False,
       unrelate = True \<rparr>"

subsection \<open>Chains of configuration calls\<close>

text \<open>
  A writer is used as a chain \<open>factory(...).m1(...).m2(...)\<close>. One call of a configuration
  method is a value of \<open>call\<close>; \<open>apply_call\<close> dispatches it to the method, and
  \<open>chain\<close> runs the calls from left to right, the first exception ending the chain.
\<close>

datatype ('s, 'shape, 'o) call =
    With 's
  | WithSchema 'shape
  | WithAny
  | Where "'o where_arg"
  | Return string
  | ReturnFields "string list"
  | Timeout number
  | Parallel

fun apply_call ::
  "((string \<times> 'o) list \<Rightarrow> string) \<Rightarrow> ('shape \<Rightarrow> 's) \<Rightarrow> 's
     \<Rightarrow> 's DeleteQueryState \<Rightarrow> ('s, 'shape, 'o) call \<Rightarrow> error + 's DeleteQueryState" where
  "apply_call parseWhereClause zobject zany st (With sch) = Inr (with_op st sch)"
| "apply_call parseWhereClause zobject zany st (WithSchema shape) = Inr (withSchema zobject st shape)"
| "apply_call parseWhereClause zobject zany st WithAny = Inr (withAny zany st)"
| "apply_call parseWhereClause zobject zany st (Where w) = where_op parseWhereClause st w"
| "apply_call parseWhereClause zobject zany st (Return mode) = Inr (return_op st mode)"
| "apply_call parseWhereClause zobject zany st (ReturnFields fs) = Inr (returnFields_op st fs)"
| "apply_call parseWhereClause zobject zany st (Timeout t) = Inr (timeout_op st t)"
| "apply_call parseWhereClause zobject zany st Parallel = Inr (parallel_op st)"

fun chain ::
  "((string \<times> 'o) list \<Rightarrow> string) \<Rightarrow> ('shape \<Rightarrow> 's) \<Rightarrow> 's
     \<Rightarrow> 's DeleteQueryState \<Rightarrow> ('s, 'shape, 'o) call list \<Rightarrow> error + 's DeleteQueryState" where
  "chain parseWhereClause zobject zany st [] = Inr st"
| "chain parseWhereClause zobject zany st (c # cs) =
     (case apply_call parseWhereClause zobject zany st c of
        Inl e \<Rightarrow> Inl e
      | Inr st' \<Rightarrow> chain parseWhereClause zobject zany st' cs)"

subsection \<open>Comparing two states field by field\<close>

text \<open>The names of the fields of \<open>DeleteQueryState\<close> on which two states differ.\<close>

definition changedFields :: "'s DeleteQueryState \<Rightarrow> 's DeleteQueryState \<Rightarrow> string list" where
  "changedFields a b =
     (if schema a = schema b then [] else [''schema''])
     @ (if quantity a = quantity b then [] else [''quantity''])
     @ (if targets a = targets b then [] else [''targets''])
     @ (if where_clause a = where_clause b then [] else [''where''])
     @ (if returnMode a = returnMode b then [] else [''returnMode''])
     @ (if returnFields a = returnFields b then [] else [''returnFields''])
     @ (if timeout a = timeout b then [] else [''timeout''])
     @ (if parallel a = parallel b then [] else [''parallel''])
     @ (if unrelate a = unrelate b then [] else [''unrelate''])"

section \<open>Properties\<close>

subsection \<open>Rendering, clause by clause\<close>

lemma toQuery_fragments:
  "targets st \<noteq> [] \<Longrightarrow>
   toQuery otherNumberText st = Inr (''DELETE '' @ targets st
     @ (case where_clause st of None \<Rightarrow> [] | Some w \<Rightarrow> if w = [] then [] else '' WHERE '' @ w)
     @ (case returnMode st of
          None \<Rightarrow> []
        | Some m \<Rightarrow> if m = ''fields'' then '' RETURN '' @ join '', '' (returnFields st)
                    else if m = [] then [] else '' RETURN '' @ toUpperCase m)
     @ (case timeout st of
          None \<Rightarrow> []
        | Some t \<Rightarrow> if truthyNumber t then '' TIMEOUT '' @ numberToString otherNumberText t @ ''s'' else [])
     @ (if parallel st then '' PARALLEL'' else []))"
  by (simp add: toQuery_def Let_def split: option.splits)

lemma toQuery_empty_targets:
  "targets st = [] \<Longrightarrow> toQuery otherNumberText st = Inl (Error ''No targets specified'')"
  by (simp add: toQuery_def)

text \<open>The rendering reads six fields only.\<close>

lemma toQuery_cong:
  "targets a = targets b \<Longrightarrow> where_clause a = where_clause b \<Longrightarrow> returnMode a = returnMode b
   \<Longrightarrow> returnFields a = returnFields b \<Longrightarrow> timeout a = timeout b \<Longrightarrow> parallel a = parallel b
   \<Longrightarrow> toQuery otherNumberText a = toQuery otherNumberText b"
  by (cases "targets b = []")
     (simp_all add: toQuery_fragments toQuery_empty_targets split: option.splits)

text \<open>
  C1, as the claim states it: every state with a filter, fields mode with a non-empty
  field list, a nonzero timeout and the parallel flag renders as \<open>DELETE <targets>\<close>
  followed by the WHERE, RETURN, TIMEOUT and PARALLEL fragments. Three such states do
  not. With empty targets \<open>toQuery\<close> throws. With the empty string as filter there is no
  WHERE fragment. With the timeout \<open>NaN\<close>, a number other than zero, there is no TIMEOUT
  fragment.
\<close>

theorem toQuery_all_set_not_always_four_fragments:
  "toQuery (\<lambda>x. []) \<lparr> schema = None :: unit option, quantity = ''many'', targets = '''',
       where_clause = Some ''age > 3'', returnMode = Some ''fields'',
       returnFields = [''name'', ''age''], timeout = Some (Finite 5), parallel = True,
       unrelate = False \<rparr>
     = Inl (Error ''No targets specified'')
   \<and> toQuery (\<lambda>x. []) \<lparr> schema = None :: unit option, quantity = ''many'',
       targets = ''person'', where_clause = Some '''', returnMode = Some ''fields'',
       returnFields = [''name'', ''age''], timeout = Some (Finite 5), parallel = True,
       unrelate = False \<rparr>
     = Inr ''DELETE person RETURN name, age TIMEOUT 5s PARALLEL''
   \<and> toQuery (\<lambda>x. []) \<lparr> schema = None :: unit option, quantity = ''many'',
       targets = ''person'', where_clause = Some '''', returnMode = Some ''fields'',
       returnFields = [''name'', ''age''], timeout = Some (Finite 5), parallel = True,
       unrelate = False \<rparr>
     \<noteq> Inr ''DELETE person WHERE  RETURN name, age TIMEOUT 5s PARALLEL''
   \<and> toQuery (\<lambda>x. []) \<lparr> schema = None :: unit option, quantity = ''many'',
       targets = ''person'', where_clause = Some ''age > 3'', returnMode = Some ''fields'',
       returnFields = [''name'', ''age''], timeout = Some NaN, parallel = True,
       unrelate = False \<rparr>
     = Inr ''DELETE person WHERE age > 3 RETURN name, age PARALLEL''
   \<and> toQuery (\<lambda>x. []) \<lparr> schema = None :: unit option, quantity = ''many'',
       targets = ''person'', where_clause = Some ''age > 3'', returnMode = Some ''fields'',
       returnFields = [''name'', ''age''], timeout = Some NaN, parallel = True,
       unrelate = False \<rparr>
     \<noteq> Inr ''DELETE person WHERE age > 3 RETURN name, age TIMEOUT NaNs PARALLEL''"
  by (simp add: toQuery_def truthyNumber_def numberToString_def isSafeInteger_def)

text \<open>
  C1, amended. For a state with non-empty targets, \<open>toQuery\<close> returns \<open>DELETE <targets>\<close>
  followed by the WHERE, RETURN, TIMEOUT and PARALLEL fragments in that order, each one
  present only when its field is truthy: the filter when it is a non-empty string; the
  return clause with the fields joined by \<open>, \<close> in fields mode, with the mode in capitals
  for any other (non-empty) mode, and nothing when the mode is absent; the timeout when
  it is a number other than zero and \<open>NaN\<close>; PARALLEL when the flag is set. In particular
  a state with non-empty targets, a non-empty filter, fields mode with a non-empty field
  list, a truthy timeout and the parallel flag renders all four fragments, WHERE before
  RETURN before TIMEOUT before PARALLEL.
\<close>

theorem toQuery_clause_order:
  "targets st \<noteq> [] \<Longrightarrow>
   toQuery otherNumberText st = Inr (''DELETE '' @ targets st
     @ (case where_clause st of None \<Rightarrow> [] | Some w \<Rightarrow> if w = [] then [] else '' WHERE '' @ w)
     @ (case returnMode st of
          None \<Rightarrow> []
        | Some m \<Rightarrow> if m = ''fields'' then '' RETURN '' @ join '', '' (returnFields st)
                    else if m = [] then [] else '' RETURN '' @ toUpperCase m)
     @ (case timeout st of
          None \<Rightarrow> []
        | Some t \<Rightarrow> if truthyNumber t
                    then '' TIMEOUT '' @ numberToString otherNumberText t @ ''s'' else [])
     @ (if parallel st then '' PARALLEL'' else []))
   \<and> (\<forall>w t. where_clause st = Some w \<and> w \<noteq> [] \<and> returnMode st = Some ''fields''
          \<and> returnFields st \<noteq> [] \<and> timeout st = Some t \<and> truthyNumber t \<and> parallel st
        \<longrightarrow> toQuery otherNumberText st = Inr (''DELETE '' @ targets st @ '' WHERE '' @ w
              @ '' RETURN '' @ join '', '' (returnFields st)
              @ '' TIMEOUT '' @ numberToString otherNumberText t @ ''s'' @ '' PARALLEL''))"
proof -
  assume t: "targets st \<noteq> []"
  note frag = toQuery_fragments [OF t, of otherNumberText]
  have all_set: "toQuery otherNumberText st = Inr (''DELETE '' @ targets st @ '' WHERE '' @ w
              @ '' RETURN '' @ join '', '' (returnFields st)
              @ '' TIMEOUT '' @ numberToString otherNumberText n @ ''s'' @ '' PARALLEL'')"
    if "where_clause st = Some w \<and> w \<noteq> [] \<and> returnMode st = Some ''fields''
          \<and> returnFields st \<noteq> [] \<and> timeout st = Some n \<and> truthyNumber n \<and> parallel st"
    for w n
    using that by (simp add: frag)
  from frag all_set show ?thesis by blast
qed

theorem toQuery_clause_order_witness:
  "toQuery (\<lambda>x. []) \<lparr> schema = None :: unit option, quantity = ''many'', targets = ''person'',
       where_clause = Some ''age > 3'', returnMode = Some ''fields'',
       returnFields = [''name'', ''age''], timeout = Some (Finite 5), parallel = True,
       unrelate = False \<rparr>
     = Inr ''DELETE person WHERE age > 3 RETURN name, age TIMEOUT 5s PARALLEL''
   \<and> toQuery (\<lambda>x. []) \<lparr> schema = None :: unit option, quantity = ''many'',
       targets = ''person'', where_clause = None, returnMode = Some ''after'',
       returnFields = [], timeout = None, parallel = False, unrelate = False \<rparr>
     = Inr ''DELETE person RETURN AFTER''
   \<and> toQuery (\<lambda>x. []) \<lparr> schema = None :: unit option, quantity = ''many'',
       targets = ''person'', where_clause = Some ''age > 3'', returnMode = None,
       returnFields = [], timeout = Some (Finite (- 12)), parallel = False,
       unrelate = False \<rparr>
     = Inr ''DELETE person WHERE age > 3 TIMEOUT -12s''"
  using
    toQuery_clause_order [where otherNumberText = "\<lambda>x. []" and st = "\<lparr> schema = None :: unit option,
       quantity = ''many'', targets = ''person'', where_clause = Some ''age > 3'',
       returnMode = Some ''fields'', returnFields = [''name'', ''age''],
       timeout = Some (Finite 5), parallel = True, unrelate = False \<rparr>"]
    toQuery_clause_order [where otherNumberText = "\<lambda>x. []" and st = "\<lparr> schema = None :: unit option,
       quantity = ''many'', targets = ''person'', where_clause = None,
       returnMode = Some ''after'', returnFields = [], timeout = None, parallel = False,
       unrelate = False \<rparr>"]
    toQuery_clause_order [where otherNumberText = "\<lambda>x. []" and st = "\<lparr> schema = None :: unit option,
       quantity = ''many'', targets = ''person'', where_clause = Some ''age > 3'',
       returnMode = None, returnFields = [], timeout = Some (Finite (- 12)),
       parallel = False, unrelate = False \<rparr>"]
  by (simp add: truthyNumber_def numberToString_def isSafeInteger_def toUpperCase_def
        upperChar_def)

subsection \<open>The relation-delete lock on the filter\<close>

text \<open>No configuration method touches \<open>unrelate\<close>, so a chain keeps it.\<close>

lemma apply_call_unrelate:
  "apply_call p zo za st c = Inr st' \<Longrightarrow> unrelate st' = unrelate st"
  by (cases c)
     (auto simp add: with_op_def withSchema_def withAny_def where_op_def return_op_def
        returnFields_op_def timeout_op_def parallel_op_def split: if_splits)

lemma chain_unrelate:
  "chain p zo za st cs = Inr st' \<Longrightarrow> unrelate st' = unrelate st"
proof (induction cs arbitrary: st)
  case Nil
  then show ?case by simp
next
  case (Cons c cs)
  from Cons.prems obtain st1 where
    one: "apply_call p zo za st c = Inr st1" and rest: "chain p zo za st1 cs = Inr st'"
    by (auto split: sum.splits)
  from Cons.IH [OF rest] apply_call_unrelate [OF one] show ?case by simp
qed

text \<open>
  C2. Take the state made by \<open>delRelation\<close> and any chain of configuration calls that
  runs to a state \<open>st\<close>. Then \<open>unrelate\<close> is still set, and \<open>where\<close> with any argument
  (a string or an object) throws the \<open>CirqlWriterError\<close> with the message
  "Cannot use where clause with delRelation": the result is the error, not a state.
\<close>

theorem where_op_fails_after_delRelation:
  "chain parseWhereClause zobject zany
      (delRelation parseWhereClause eq getRelationFrom getRelationTo relation) cs = Inr st
   \<Longrightarrow> where_op parseWhereClause st w
         = Inl (CirqlWriterError ''Cannot use where clause with delRelation'')
       \<and> apply_call parseWhereClause zobject zany st (Where w)
         = Inl (CirqlWriterError ''Cannot use where clause with delRelation'')
       \<and> unrelate st"
proof -
  assume run: "chain parseWhereClause zobject zany
      (delRelation parseWhereClause eq getRelationFrom getRelationTo relation) cs = Inr st"
  have "unrelate (delRelation parseWhereClause eq getRelationFrom getRelationTo relation
          :: 'a DeleteQueryState)"
    by (simp add: delRelation_def)
  with chain_unrelate [OF run] have "unrelate st" by simp
  then show ?thesis by (simp add: where_op_def)
qed

theorem where_op_fails_after_delRelation_witness:
  "chain (\<lambda>obj :: (string \<times> string) list. ''in = person:1 AND out = person:2'') (\<lambda>shape :: unit. ()) ()
      (delRelation (\<lambda>obj :: (string \<times> string) list. ''in = person:1 AND out = person:2'') (\<lambda>v :: string. v)
         (\<lambda>r. ''person:1'') (\<lambda>r. ''person:2'') \<lparr> edge = ''knows:1'' \<rparr>)
      [Timeout (Finite 5), Parallel]
    = Inr \<lparr> schema = None, quantity = ''maybe'', targets = ''knows:1'',
            where_clause = Some ''in = person:1 AND out = person:2'',
            returnMode = Some ''before'', returnFields = [], timeout = Some (Finite 5),
            parallel = True, unrelate = True \<rparr>
   \<and> where_op (\<lambda>obj :: (string \<times> string) list. ''in = person:1 AND out = person:2'')
        \<lparr> schema = None :: unit option, quantity = ''maybe'', targets = ''knows:1'',
            where_clause = Some ''in = person:1 AND out = person:2'',
            returnMode = Some ''before'', returnFields = [], timeout = Some (Finite 5),
            parallel = True, unrelate = True \<rparr> (WhereText ''age > 3'')
      = Inl (CirqlWriterError ''Cannot use where clause with delRelation'')"
proof -
  have run: "chain (\<lambda>obj :: (string \<times> string) list. ''in = person:1 AND out = person:2'') (\<lambda>shape :: unit. ()) ()
      (delRelation (\<lambda>obj :: (string \<times> string) list. ''in = person:1 AND out = person:2'') (\<lambda>v :: string. v)
         (\<lambda>r. ''person:1'') (\<lambda>r. ''person:2'') \<lparr> edge = ''knows:1'' \<rparr>)
      [Timeout (Finite 5), Parallel]
    = Inr \<lparr> schema = None, quantity = ''maybe'', targets = ''knows:1'',
            where_clause = Some ''in = person:1 AND out = person:2'',
            returnMode = Some ''before'', returnFields = [], timeout = Some (Finite 5),
            parallel = True, unrelate = True \<rparr>"
    by (simp add: delRelation_def timeout_op_def parallel_op_def)
  from where_op_fails_after_delRelation [OF run, of "WhereText ''age > 3''"] run
  show ?thesis by simp
qed

subsection \<open>The guard of the rendering\<close>

text \<open>
  C3, as the claim states it: rendering a state with empty targets fails with a
  configuration error, the \<open>CirqlWriterError\<close> that \<open>where\<close> and \<open>del\<close> throw. It does
  not: on the state below \<open>toQuery\<close> throws the plain \<open>Error\<close>.
\<close>

theorem toQuery_no_targets_not_writer_error:
  "toQuery (\<lambda>x. []) \<lparr> schema = None :: unit option, quantity = ''maybe'', targets = '''',
       where_clause = None, returnMode = Some ''before'', returnFields = [],
       timeout = None, parallel = False, unrelate = False \<rparr>
     = Inl (Error ''No targets specified'')
   \<and> toQuery (\<lambda>x. []) \<lparr> schema = None :: unit option, quantity = ''maybe'', targets = '''',
       where_clause = None, returnMode = Some ''before'', returnFields = [],
       timeout = None, parallel = False, unrelate = False \<rparr>
     \<noteq> Inl (CirqlWriterError ''No targets specified'')"
  by (simp add: toQuery_def)

text \<open>
  C3, amended. \<open>toQuery\<close> fails if and only if \<open>targets\<close> is empty, and then with the
  plain \<open>Error\<close> whose message is "No targets specified" (it has no other failure); for
  every state with non-empty targets it returns a string.
\<close>

theorem toQuery_fails_iff_no_targets:
  "(toQuery otherNumberText st = Inl (Error ''No targets specified'') \<longleftrightarrow> targets st = [])
   \<and> (targets st \<noteq> [] \<longrightarrow> (\<exists>s. toQuery otherNumberText st = Inr s))
   \<and> (\<forall>e. toQuery otherNumberText st = Inl e \<longrightarrow> e = Error ''No targets specified'')"
  by (cases "targets st = []") (simp_all add: toQuery_fragments toQuery_empty_targets)

theorem toQuery_fails_iff_no_targets_witness:
  "targets \<lparr> schema = None :: unit option, quantity = ''maybe'', targets = '''',
       where_clause = None, returnMode = Some ''before'', returnFields = [],
       timeout = None, parallel = False, unrelate = False \<rparr> = []
   \<and> toQuery (\<lambda>x. []) \<lparr> schema = None :: unit option, quantity = ''maybe'', targets = '''',
       where_clause = None, returnMode = Some ''before'', returnFields = [],
       timeout = None, parallel = False, unrelate = False \<rparr>
     = Inl (Error ''No targets specified'')
   \<and> targets \<lparr> schema = None :: unit option, quantity = ''maybe'', targets = ''person:1'',
       where_clause = None, returnMode = Some ''before'', returnFields = [],
       timeout = None, parallel = False, unrelate = False \<rparr> \<noteq> []
   \<and> (\<exists>s. toQuery (\<lambda>x. []) \<lparr> schema = None :: unit option, quantity = ''maybe'',
       targets = ''person:1'', where_clause = None, returnMode = Some ''before'',
       returnFields = [], timeout = None, parallel = False, unrelate = False \<rparr> = Inr s)"
proof -
  let ?st = "\<lparr> schema = None :: unit option, quantity = ''maybe'', targets = '''',
       where_clause = None, returnMode = Some ''before'', returnFields = [],
       timeout = None, parallel = False, unrelate = False \<rparr>"
  let ?st' = "\<lparr> schema = None :: unit option, quantity = ''maybe'', targets = ''person:1'',
       where_clause = None, returnMode = Some ''before'', returnFields = [],
       timeout = None, parallel = False, unrelate = False \<rparr>"
  have empty: "targets ?st = []" by simp
  from toQuery_fails_iff_no_targets [where otherNumberText = "\<lambda>x. []" and st = ?st]
  have "(toQuery (\<lambda>x. []) ?st = Inl (Error ''No targets specified'')) = (targets ?st = [])"
    by (rule conjunct1)
  with empty have fails: "toQuery (\<lambda>x. []) ?st = Inl (Error ''No targets specified'')"
    by (rule iffD2 [rotated])
  have some: "targets ?st' \<noteq> []" by simp
  from toQuery_fails_iff_no_targets [where otherNumberText = "\<lambda>x. []" and st = ?st']
  have "targets ?st' \<noteq> [] \<longrightarrow> (\<exists>s. toQuery (\<lambda>x. []) ?st' = Inr s)"
    by (rule conjunct1 [OF conjunct2])
  with some have returns: "\<exists>s. toQuery (\<lambda>x. []) ?st' = Inr s" by (rule mp [rotated])
  from empty fails some returns show ?thesis by (intro conjI)
qed

subsection \<open>The return mode\<close>

text \<open>
  C4, as the claim states it: after \<open>return(m)\<close> the field \<open>returnFields\<close> is empty. It is
  not: \<open>return\<close> replaces \<open>returnMode\<close> only, and a state that went through
  \<open>returnFields('name')\<close> keeps its list.
\<close>

theorem return_op_keeps_returnFields:
  "returnFields (return_op
      \<lparr> schema = None :: unit option, quantity = ''many'', targets = ''person'',
        where_clause = None, returnMode = Some ''fields'', returnFields = [''name''],
        timeout = None, parallel = False, unrelate = False \<rparr> ''after'') = [''name'']
   \<and> returnFields (return_op
      \<lparr> schema = None :: unit option, quantity = ''many'', targets = ''person'',
        where_clause = None, returnMode = Some ''fields'', returnFields = [''name''],
        timeout = None, parallel = False, unrelate = False \<rparr> ''after'') \<noteq> []"
  by (simp add: return_op_def)

text \<open>
  C4, amended. For every state \<open>st\<close> and mode \<open>m\<close>, the state returned by \<open>return(m)\<close> has
  \<open>returnMode = m\<close> and every other field, \<open>returnFields\<close> included, equal to that of
  \<open>st\<close>.
\<close>

theorem return_op_frame:
  "returnMode (return_op st m) = Some m
   \<and> returnFields (return_op st m) = returnFields st
   \<and> schema (return_op st m) = schema st
   \<and> quantity (return_op st m) = quantity st
   \<and> targets (return_op st m) = targets st
   \<and> where_clause (return_op st m) = where_clause st
   \<and> timeout (return_op st m) = timeout st
   \<and> parallel (return_op st m) = parallel st
   \<and> unrelate (return_op st m) = unrelate st"
  by (simp add: return_op_def)

subsection \<open>The timeout\<close>

text \<open>
  C5. Let \<open>pre\<close> be the rendering up to the return clause and \<open>suf\<close> the PARALLEL fragment
  or nothing. When the timeout is absent or \<open>0\<close> (or \<open>NaN\<close>) the rendering is \<open>pre\<close>
  followed by \<open>suf\<close>, with no TIMEOUT fragment; when it is a truthy number \<open>n\<close> the
  rendering has \<open> TIMEOUT <n>s\<close> between the two, \<open><n>\<close> being the text JavaScript gives
  the number. The truthy numbers are the ones other than zero and \<open>NaN\<close>: the integers,
  the fractions and the infinities alike. In both cases a state with empty targets has no
  rendering but the error of \<open>toQuery\<close>. And \<open>timeout(0)\<close> renders as the same state with
  the timeout unset does.
\<close>

theorem timeout_fragment:
  "(let pre = ''DELETE '' @ targets st
          @ (case where_clause st of
               None \<Rightarrow> []
             | Some w \<Rightarrow> if w = [] then [] else '' WHERE '' @ w)
          @ (case returnMode st of
               None \<Rightarrow> []
             | Some m \<Rightarrow> if m = ''fields'' then '' RETURN '' @ join '', '' (returnFields st)
                         else if m = [] then [] else '' RETURN '' @ toUpperCase m);
        suf = (if parallel st then '' PARALLEL'' else []);
        rendered = (\<lambda>text. if targets st = [] then Inl (Error ''No targets specified'')
                           else Inr text)
    in (timeout st = None \<or> timeout st = Some (Finite 0) \<or> timeout st = Some NaN
          \<longrightarrow> toQuery otherNumberText st = rendered (pre @ suf))
       \<and> (\<forall>n. timeout st = Some n \<and> truthyNumber n
             \<longrightarrow> toQuery otherNumberText st
                   = rendered (pre @ '' TIMEOUT '' @ numberToString otherNumberText n @ ''s''
                                @ suf)))
   \<and> (\<forall>n. truthyNumber n \<longleftrightarrow> n \<noteq> Finite 0 \<and> n \<noteq> NaN)
   \<and> toQuery otherNumberText (timeout_op st (Finite 0))
       = toQuery otherNumberText (st\<lparr>timeout := None\<rparr>)"
proof (intro conjI)
  show "let pre = ''DELETE '' @ targets st
          @ (case where_clause st of
               None \<Rightarrow> []
             | Some w \<Rightarrow> if w = [] then [] else '' WHERE '' @ w)
          @ (case returnMode st of
               None \<Rightarrow> []
             | Some m \<Rightarrow> if m = ''fields'' then '' RETURN '' @ join '', '' (returnFields st)
                         else if m = [] then [] else '' RETURN '' @ toUpperCase m);
        suf = (if parallel st then '' PARALLEL'' else []);
        rendered = (\<lambda>text. if targets st = [] then Inl (Error ''No targets specified'')
                           else Inr text)
    in (timeout st = None \<or> timeout st = Some (Finite 0) \<or> timeout st = Some NaN
          \<longrightarrow> toQuery otherNumberText st = rendered (pre @ suf))
       \<and> (\<forall>n. timeout st = Some n \<and> truthyNumber n
             \<longrightarrow> toQuery otherNumberText st
                   = rendered (pre @ '' TIMEOUT '' @ numberToString otherNumberText n @ ''s''
                                @ suf))"
  proof (cases "targets st = []")
    case True
    then show ?thesis by (simp add: Let_def toQuery_empty_targets)
  next
    case False
    then show ?thesis
      unfolding Let_def
      by (auto simp add: toQuery_fragments [OF False, of otherNumberText] truthyNumber_def)
  qed
next
  show "\<forall>n. truthyNumber n \<longleftrightarrow> n \<noteq> Finite 0 \<and> n \<noteq> NaN"
  proof
    fix n show "truthyNumber n \<longleftrightarrow> n \<noteq> Finite 0 \<and> n \<noteq> NaN"
      by (cases n) (simp_all add: truthyNumber_def)
  qed
next
  show "toQuery otherNumberText (timeout_op st (Finite 0))
       = toQuery otherNumberText (st\<lparr>timeout := None\<rparr>)"
    by (cases "targets st = []")
       (simp_all add: toQuery_fragments toQuery_empty_targets timeout_op_def truthyNumber_def
          split: option.splits)
qed

theorem timeout_fragment_witness:
  "toQuery (\<lambda>x. if x = 1 / 2 then ''0.5'' else ''1e+21'')
     \<lparr> schema = None :: unit option, quantity = ''many'', targets = ''person'',
       where_clause = None, returnMode = Some ''before'', returnFields = [],
       timeout = Some (Finite 0), parallel = True, unrelate = False \<rparr>
     = Inr ''DELETE person RETURN BEFORE PARALLEL''
   \<and> toQuery (\<lambda>x. if x = 1 / 2 then ''0.5'' else ''1e+21'')
     \<lparr> schema = None :: unit option, quantity = ''many'', targets = ''person'',
       where_clause = None, returnMode = Some ''before'', returnFields = [],
       timeout = Some (Finite 30), parallel = True, unrelate = False \<rparr>
     = Inr ''DELETE person RETURN BEFORE TIMEOUT 30s PARALLEL''
   \<and> toQuery (\<lambda>x. if x = 1 / 2 then ''0.5'' else ''1e+21'')
     \<lparr> schema = None :: unit option, quantity = ''many'', targets = ''person'',
       where_clause = None, returnMode = Some ''before'', returnFields = [],
       timeout = Some PosInfinity, parallel = True, unrelate = False \<rparr>
     = Inr ''DELETE person RETURN BEFORE TIMEOUT Infinitys PARALLEL''
   \<and> toQuery (\<lambda>x. if x = 1 / 2 then ''0.5'' else ''1e+21'')
     \<lparr> schema = None :: unit option, quantity = ''many'', targets = ''person'',
       where_clause = None, returnMode = Some ''before'', returnFields = [],
       timeout = Some (Finite 1000000000000000000000), parallel = True, unrelate = False \<rparr>
     = Inr ''DELETE person RETURN BEFORE TIMEOUT 1e+21s PARALLEL''
   \<and> toQuery (\<lambda>x. if x = 1 / 2 then ''0.5'' else ''1e+21'')
     \<lparr> schema = None :: unit option, quantity = ''many'', targets = ''person'',
       where_clause = None, returnMode = Some ''before'', returnFields = [],
       timeout = Some (Finite (1 / 2)), parallel = True, unrelate = False \<rparr>
     = Inr ''DELETE person RETURN BEFORE TIMEOUT 0.5s PARALLEL''"
proof -
  let ?p = "\<lambda>x :: rat. if x = 1 / 2 then ''0.5'' else ''1e+21''"
  let ?st = "\<lambda>t. \<lparr> schema = None :: unit option, quantity = ''many'', targets = ''person'',
       where_clause = None, returnMode = Some ''before'', returnFields = [],
       timeout = Some t, parallel = True, unrelate = False \<rparr>"
  have half: "\<not> isSafeInteger (1 / 2)" by code_simp
  have zero: "toQuery ?p (?st (Finite 0)) = Inr ''DELETE person RETURN BEFORE PARALLEL''"
    using timeout_fragment [where otherNumberText = ?p and st = "?st (Finite 0)"]
    by (simp add: Let_def toUpperCase_def upperChar_def)
  have thirty:
    "toQuery ?p (?st (Finite 30)) = Inr ''DELETE person RETURN BEFORE TIMEOUT 30s PARALLEL''"
    using timeout_fragment [where otherNumberText = ?p and st = "?st (Finite 30)"]
    by (simp add: Let_def numberToString_def isSafeInteger_def toUpperCase_def upperChar_def)
  have infinite:
    "toQuery ?p (?st PosInfinity) = Inr ''DELETE person RETURN BEFORE TIMEOUT Infinitys PARALLEL''"
    using timeout_fragment [where otherNumberText = ?p and st = "?st PosInfinity"]
    by (simp add: Let_def numberToString_def toUpperCase_def upperChar_def)
  have large:
    "toQuery ?p (?st (Finite 1000000000000000000000))
       = Inr ''DELETE person RETURN BEFORE TIMEOUT 1e+21s PARALLEL''"
    using timeout_fragment [where otherNumberText = ?p
        and st = "?st (Finite 1000000000000000000000)"]
    by (simp add: Let_def numberToString_def isSafeInteger_def toUpperCase_def upperChar_def)
  have fraction:
    "toQuery ?p (?st (Finite (1 / 2))) = Inr ''DELETE person RETURN BEFORE TIMEOUT 0.5s PARALLEL''"
    using timeout_fragment [where otherNumberText = ?p and st = "?st (Finite (1 / 2))"]
    by (simp add: Let_def numberToString_def half toUpperCase_def upperChar_def)
  from zero thirty infinite large fraction show ?thesis by (intro conjI)
qed

subsection \<open>The bulk-delete factory\<close>

text \<open>
  C6. \<open>del\<close> with no target throws a \<open>CirqlWriterError\<close>; \<open>del\<close> with a target that is
  list-like throws a \<open>CirqlWriterError\<close>; in both cases the result is the error and no
  state. With at least one target and none of them list-like it returns the state whose
  \<open>targets\<close> is the rendered targets joined by \<open>, \<close>, with quantity \<open>many\<close> and
  \<open>unrelate\<close> false (and the other fields at their defaults).
\<close>

theorem del_guards:
  "(del listLike render [] :: error + 's DeleteQueryState)
      = Inl (CirqlWriterError ''At least one target must be specified'')
   \<and> ((\<exists>v \<in> set ts. listLike v) \<longrightarrow>
        (del listLike render ts :: error + 's DeleteQueryState)
          = Inl (CirqlWriterError ''Multiple targets must be specified seperately''))
   \<and> (ts \<noteq> [] \<and> (\<forall>v \<in> set ts. \<not> listLike v) \<longrightarrow>
        (del listLike render ts :: error + 's DeleteQueryState)
          = Inr \<lparr> schema = None, quantity = ''many'',
                  targets = join '', '' (map render ts), where_clause = None,
                  returnMode = Some ''before'', returnFields = [], timeout = None,
                  parallel = False, unrelate = False \<rparr>)"
  by (auto simp add: del_def isListLike_def list_ex_iff)

theorem del_guards_witness:
  "(del (\<lambda>v. \<not> isl v) (case_sum (\<lambda>s. s) (join '', '')) [Inr [''person'', ''dog'']]
      :: error + unit DeleteQueryState)
     = Inl (CirqlWriterError ''Multiple targets must be specified seperately'')
   \<and> (del (\<lambda>v. \<not> isl v) (case_sum (\<lambda>s. s) (join '', '')) [Inl ''person'', Inl ''dog'']
      :: error + unit DeleteQueryState)
     = Inr \<lparr> schema = None, quantity = ''many'', targets = ''person, dog'',
             where_clause = None, returnMode = Some ''before'', returnFields = [],
             timeout = None, parallel = False, unrelate = False \<rparr>"
  using del_guards [of "\<lambda>v. \<not> isl v" "case_sum (\<lambda>s. s) (join '', '')"
      "[Inr [''person'', ''dog'']]", where ?'s = unit]
    del_guards [of "\<lambda>v. \<not> isl v" "case_sum (\<lambda>s. s) (join '', '')"
      "[Inl ''person'', Inl ''dog'']", where ?'s = unit]
  by simp

subsection \<open>Independent settings\<close>

text \<open>
  C8. Starting from any state, \<open>return(m)\<close>, \<open>timeout(t)\<close> and \<open>parallel()\<close> applied in any
  of their six orders give states with the same rendering.
\<close>

theorem return_timeout_parallel_commute:
  "toQuery otherNumberText (parallel_op (timeout_op (return_op st m) t))
     = toQuery otherNumberText (parallel_op (return_op (timeout_op st t) m))
   \<and> toQuery otherNumberText (parallel_op (timeout_op (return_op st m) t))
     = toQuery otherNumberText (timeout_op (parallel_op (return_op st m)) t)
   \<and> toQuery otherNumberText (parallel_op (timeout_op (return_op st m) t))
     = toQuery otherNumberText (timeout_op (return_op (parallel_op st) m) t)
   \<and> toQuery otherNumberText (parallel_op (timeout_op (return_op st m) t))
     = toQuery otherNumberText (return_op (parallel_op (timeout_op st t)) m)
   \<and> toQuery otherNumberText (parallel_op (timeout_op (return_op st m) t))
     = toQuery otherNumberText (return_op (timeout_op (parallel_op st) t) m)"
  by (intro conjI toQuery_cong) (simp_all add: return_op_def timeout_op_def parallel_op_def)

subsection \<open>What a configuration call changes\<close>

text \<open>\<open>changedFields\<close> is empty exactly for equal states: the nine fields are the state.\<close>

lemma if_Nil_iff: "((if P then [] else [x]) = []) = P"
  by simp

lemma changedFields_Nil_iff: "changedFields a b = [] \<longleftrightarrow> a = b"
  by (cases a, cases b) (simp add: changedFields_def if_Nil_iff del: if_split cong: if_cong)

text \<open>What each method changes, exactly.\<close>

lemma changedFields_with_op:
  "changedFields st (with_op st sch) = (if schema st = Some sch then [] else [''schema''])"
  by (simp add: changedFields_def with_op_def)

lemma where_op_Inr:
  "where_op parseWhereClause st w = Inr st' \<Longrightarrow>
   st' = st\<lparr>where_clause := Some (case w of WhereObject obj \<Rightarrow> parseWhereClause obj
                                              | WhereText t \<Rightarrow> t)\<rparr>"
  by (cases "unrelate st") (simp_all add: where_op_def)

lemma changedFields_where_op:
  "where_op parseWhereClause st w = Inr st' \<Longrightarrow>
   changedFields st st' = (if where_clause st = where_clause st' then [] else [''where''])"
  by (drule where_op_Inr) (simp add: changedFields_def)

lemma changedFields_return_op:
  "changedFields st (return_op st mode)
     = (if returnMode st = Some mode then [] else [''returnMode''])"
  by (simp add: changedFields_def return_op_def)

lemma changedFields_returnFields_op:
  "changedFields st (returnFields_op st fs)
     = (if returnMode st = Some ''fields'' then [] else [''returnMode''])
       @ (if returnFields st = fs then [] else [''returnFields''])"
  by (simp add: changedFields_def returnFields_op_def)

lemma changedFields_timeout_op:
  "changedFields st (timeout_op st t) = (if timeout st = Some t then [] else [''timeout''])"
  by (simp add: changedFields_def timeout_op_def)

lemma changedFields_parallel_op:
  "changedFields st (parallel_op st) = (if parallel st then [] else [''parallel''])"
  by (simp add: changedFields_def parallel_op_def)

text \<open>
  C7, as the claim states it: each configuration method changes at most one field. Not
  \<open>returnFields\<close>: on a state fresh from \<open>del\<close> it changes both \<open>returnMode\<close> and
  \<open>returnFields\<close>.
\<close>

theorem returnFields_op_changes_two_fields:
  "changedFields
      \<lparr> schema = None :: unit option, quantity = ''many'', targets = ''person'',
        where_clause = None, returnMode = Some ''before'', returnFields = [],
        timeout = None, parallel = False, unrelate = False \<rparr>
      (returnFields_op
         \<lparr> schema = None :: unit option, quantity = ''many'', targets = ''person'',
           where_clause = None, returnMode = Some ''before'', returnFields = [],
           timeout = None, parallel = False, unrelate = False \<rparr> [''name''])
    = [''returnMode'', ''returnFields'']
   \<and> \<not> length (changedFields
      \<lparr> schema = None :: unit option, quantity = ''many'', targets = ''person'',
        where_clause = None, returnMode = Some ''before'', returnFields = [],
        timeout = None, parallel = False, unrelate = False \<rparr>
      (returnFields_op
         \<lparr> schema = None :: unit option, quantity = ''many'', targets = ''person'',
           where_clause = None, returnMode = Some ''before'', returnFields = [],
           timeout = None, parallel = False, unrelate = False \<rparr> [''name''])) \<le> 1"
  by (simp add: changedFields_def returnFields_op_def)

text \<open>
  C7, amended. \<open>with\<close>, \<open>where\<close> (when it does not throw), \<open>return\<close>, \<open>timeout\<close> and
  \<open>parallel\<close> return a state that differs from their input in at most one field, the one
  they set (\<open>schema\<close>, \<open>where\<close>, \<open>returnMode\<close>, \<open>timeout\<close>, \<open>parallel\<close>);
  \<open>returnFields\<close> returns a state that differs in at most the two fields \<open>returnMode\<close>
  and \<open>returnFields\<close>. All other fields are equal.
\<close>

theorem configuration_frame:
  "set (changedFields st (with_op st sch)) \<subseteq> {''schema''}
   \<and> (where_op parseWhereClause st w = Inr st' \<longrightarrow> set (changedFields st st') \<subseteq> {''where''})
   \<and> set (changedFields st (return_op st mode)) \<subseteq> {''returnMode''}
   \<and> set (changedFields st (returnFields_op st fs)) \<subseteq> {''returnMode'', ''returnFields''}
   \<and> set (changedFields st (timeout_op st t)) \<subseteq> {''timeout''}
   \<and> set (changedFields st (parallel_op st)) \<subseteq> {''parallel''}
   \<and> length (changedFields st (with_op st sch)) \<le> 1
   \<and> (where_op parseWhereClause st w = Inr st' \<longrightarrow> length (changedFields st st') \<le> 1)
   \<and> length (changedFields st (return_op st mode)) \<le> 1
   \<and> length (changedFields st (returnFields_op st fs)) \<le> 2
   \<and> length (changedFields st (timeout_op st t)) \<le> 1
   \<and> length (changedFields st (parallel_op st)) \<le> 1"
proof -
  have w: "set (changedFields st st') \<subseteq> {''where''} \<and> length (changedFields st st') \<le> 1"
    if "where_op parseWhereClause st w = Inr st'"
    by (simp add: changedFields_where_op [OF that])
  show ?thesis
    using w
    by (simp add: changedFields_with_op changedFields_return_op changedFields_returnFields_op
          changedFields_timeout_op changedFields_parallel_op)
qed

theorem configuration_frame_witness:
  "where_op (\<lambda>obj :: (string \<times> unit) list. '''')
      \<lparr> schema = None :: unit option, quantity = ''many'', targets = ''person'',
        where_clause = None, returnMode = Some ''before'', returnFields = [],
        timeout = None, parallel = False, unrelate = False \<rparr> (WhereText ''age > 3'')
     = Inr \<lparr> schema = None, quantity = ''many'', targets = ''person'',
             where_clause = Some ''age > 3'', returnMode = Some ''before'',
             returnFields = [], timeout = None, parallel = False, unrelate = False \<rparr>
   \<and> set (changedFields
        \<lparr> schema = None :: unit option, quantity = ''many'', targets = ''person'',
          where_clause = None, returnMode = Some ''before'', returnFields = [],
          timeout = None, parallel = False, unrelate = False \<rparr>
        \<lparr> schema = None :: unit option, quantity = ''many'', targets = ''person'',
          where_clause = Some ''age > 3'', returnMode = Some ''before'',
          returnFields = [], timeout = None, parallel = False, unrelate = False \<rparr>)
       \<subseteq> {''where''}"
proof -
  have ok: "where_op (\<lambda>obj :: (string \<times> unit) list. '''')
      \<lparr> schema = None :: unit option, quantity = ''many'', targets = ''person'',
        where_clause = None, returnMode = Some ''before'', returnFields = [],
        timeout = None, parallel = False, unrelate = False \<rparr> (WhereText ''age > 3'')
     = Inr \<lparr> schema = None, quantity = ''many'', targets = ''person'',
             where_clause = Some ''age > 3'', returnMode = Some ''before'',
             returnFields = [], timeout = None, parallel = False, unrelate = False \<rparr>"
    by (simp add: where_op_def)
  from configuration_frame [of "\<lparr> schema = None :: unit option, quantity = ''many'',
        targets = ''person'', where_clause = None, returnMode = Some ''before'',
        returnFields = [], timeout = None, parallel = False, unrelate = False \<rparr>"
      _ "\<lambda>obj :: (string \<times> unit) list. ''''" "WhereText ''age > 3''"] ok
  show ?thesis by simp
qed

text \<open>
  C9. The attached result schema never affects the rendered text: attaching any schema
  \<open>a\<close> or \<open>b\<close> with \<open>with\<close>, any shape with \<open>withSchema\<close>, or the permissive schema with
  \<open>withAny\<close>, gives states whose rendering is that of the state itself.
\<close>

theorem schema_inert_for_toQuery:
  "toQuery otherNumberText (with_op st a) = toQuery otherNumberText st
   \<and> toQuery otherNumberText (with_op st a) = toQuery otherNumberText (with_op st b)
   \<and> toQuery otherNumberText (withSchema zobject st shape) = toQuery otherNumberText st
   \<and> toQuery otherNumberText (withAny zany st) = toQuery otherNumberText st"
  by (intro conjI toQuery_cong) (simp_all add: with_op_def withSchema_def withAny_def)

subsection \<open>The empty filter\<close>

text \<open>
  C10. On a state that is not a relation delete, \<open>where("")\<close> succeeds and stores the empty
  string as the filter. The state it returns renders as the same state with no filter
  does, and for non-empty targets the rendering goes from the targets straight to the
  return clause: there is no WHERE fragment.
\<close>

theorem where_empty_string:
  "\<not> unrelate st \<Longrightarrow>
   where_op parseWhereClause st (WhereText '''') = Inr (st\<lparr>where_clause := Some ''''\<rparr>)
   \<and> toQuery otherNumberText (st\<lparr>where_clause := Some ''''\<rparr>) = toQuery otherNumberText (st\<lparr>where_clause := None\<rparr>)
   \<and> (targets st \<noteq> [] \<longrightarrow>
        toQuery otherNumberText (st\<lparr>where_clause := Some ''''\<rparr>) = Inr (''DELETE '' @ targets st
          @ (case returnMode st of
               None \<Rightarrow> []
             | Some m \<Rightarrow> if m = ''fields'' then '' RETURN '' @ join '', '' (returnFields st)
                         else if m = [] then [] else '' RETURN '' @ toUpperCase m)
          @ (case timeout st of
               None \<Rightarrow> []
             | Some t \<Rightarrow> if truthyNumber t then '' TIMEOUT '' @ numberToString otherNumberText t @ ''s'' else [])
          @ (if parallel st then '' PARALLEL'' else [])))"
  by (cases "targets st = []")
     (simp_all add: where_op_def toQuery_fragments toQuery_empty_targets
        split: option.splits)

theorem where_empty_string_witness:
  "where_op (\<lambda>obj :: (string \<times> unit) list. '''')
      \<lparr> schema = None :: unit option, quantity = ''many'', targets = ''person'',
        where_clause = None, returnMode = Some ''before'', returnFields = [],
        timeout = None, parallel = False, unrelate = False \<rparr> (WhereText '''')
     = Inr \<lparr> schema = None, quantity = ''many'', targets = ''person'',
             where_clause = Some '''', returnMode = Some ''before'', returnFields = [],
             timeout = None, parallel = False, unrelate = False \<rparr>
   \<and> toQuery (\<lambda>x. []) \<lparr> schema = None :: unit option, quantity = ''many'', targets = ''person'',
        where_clause = Some '''', returnMode = Some ''before'', returnFields = [],
        timeout = None, parallel = False, unrelate = False \<rparr>
     = Inr ''DELETE person RETURN BEFORE''"
  using where_empty_string [where st = "\<lparr> schema = None :: unit option,
        quantity = ''many'', targets = ''person'', where_clause = None,
        returnMode = Some ''before'', returnFields = [], timeout = None, parallel = False,
        unrelate = False \<rparr>"
      and parseWhereClause = "\<lambda>obj :: (string \<times> unit) list. ''''"
      and otherNumberText = "\<lambda>x. []"]
  by (auto simp add: toUpperCase_def upperChar_def)

subsection \<open>Worked chains\<close>

text \<open>
  Three chains evaluated on the model, with stand-ins for the helpers: targets rendered as
  they are, \<open>thing\<close> joining table and id with a colon, and a where-clause compiler that
  prints each property as \<open>key = value\<close> and joins them with AND.
\<close>

lemma del_two_targets:
  "(case (del (\<lambda>v. False) (\<lambda>v. v) [''person'', ''dog''] :: error + unit DeleteQueryState) of
      Inl e \<Rightarrow> Inl e
    | Inr st \<Rightarrow> toQuery (\<lambda>x. []) st)
   = Inr ''DELETE person, dog RETURN BEFORE''"
  by (simp add: del_def isListLike_def toQuery_def toUpperCase_def upperChar_def)

lemma delRecord_table_and_id:
  "(case (delRecord Inr (\<lambda>tb i. tb @ '':'' @ i) ''person'' (Some ''123'')
           :: error + unit DeleteQueryState) of
      Inl e \<Rightarrow> Inl e
    | Inr st \<Rightarrow> toQuery (\<lambda>x. []) st)
   = Inr ''DELETE person:123 RETURN BEFORE''"
  by (simp add: delRecord_def toQuery_def toUpperCase_def upperChar_def)

lemma delRelation_timeout_parallel:
  "toQuery (\<lambda>x. []) (parallel_op (timeout_op
      (delRelation (\<lambda>obj. join '' AND '' (map (\<lambda>(k, v). k @ '' = '' @ v) obj))
         (\<lambda>v :: string. v) (\<lambda>r. ''person:1'') (\<lambda>r. ''person:2'') \<lparr> edge = ''knows:1'' \<rparr>
       :: unit DeleteQueryState) (Finite 5)))
   = Inr ''DELETE knows:1 WHERE in = person:1 AND out = person:2 RETURN BEFORE TIMEOUT 5s PARALLEL''"
  by (simp add: delRelation_def timeout_op_def parallel_op_def toQuery_def toUpperCase_def
        upperChar_def truthyNumber_def numberToString_def isSafeInteger_def)

end
